theory Spec2Isabelle
  imports Main "HOL-Library.Word"
begin

unbundle bit_operations_syntax

section \<open>The record kept in RTC memory\<close>

text \<open>
  \<^verbatim>\<open>rtcMemory.h\<close> declares one struct of four \<^verbatim>\<open>int\<close> fields and one global instance
  of it, \<^verbatim>\<open>myData\<close>. On the ESP8266 an \<^verbatim>\<open>int\<close> has 32 bits, so every field is a
  \<^typ>\<open>32 word\<close>: \<open>+\<close> wraps around modulo \<open>2 ^ 32\<close> and \<^const>\<open>sint\<close> reads the
  two's complement value.
\<close>

type_synonym c_int = "32 word"
type_synonym byte = "8 word"

record rtcStore =
  count :: c_int
  thing :: c_int
  errCode :: c_int
  dummy :: c_int

text \<open>\<^verbatim>\<open>#define RTCMEMORYSTART 65\<close>: the bucket (4-byte unit) the record is kept at.\<close>

definition RTCMEMORYSTART :: nat where
  "RTCMEMORYSTART = 65"

subsection \<open>The object representation of the struct\<close>

text \<open>
  Both vendor calls receive \<^verbatim>\<open>&myData\<close> as an untyped buffer, so the struct is seen
  through its bytes: four little-endian 32-bit integers, in declaration order, without
  padding.
\<close>

definition bytes_of_int :: "c_int \<Rightarrow> byte list" where
  "bytes_of_int w = map (\<lambda>i. ucast (drop_bit (8 * i) w)) [0..<4]"

definition int_of_bytes :: "byte list \<Rightarrow> c_int" where
  "int_of_bytes bs = horner_sum ucast 256 bs"

definition object_bytes :: "rtcStore \<Rightarrow> byte list" where
  "object_bytes d =
     bytes_of_int (count d) @ bytes_of_int (thing d) @
     bytes_of_int (errCode d) @ bytes_of_int (dummy d)"

definition rtcStore_of_bytes :: "byte list \<Rightarrow> rtcStore" where
  "rtcStore_of_bytes bs =
     \<lparr>count = int_of_bytes (take 4 bs),
      thing = int_of_bytes (take 4 (drop 4 bs)),
      errCode = int_of_bytes (take 4 (drop 8 bs)),
      dummy = int_of_bytes (take 4 (drop 12 bs))\<rparr>"

text \<open>\<^verbatim>\<open>sizeof(myData)\<close>: the number of bytes of the object.\<close>

definition sizeof_myData :: "rtcStore \<Rightarrow> nat" where
  "sizeof_myData d = length (object_bytes d)"

section \<open>The RTC memory and the vendor primitives\<close>

text \<open>
  The RTC memory is addressed by byte here; the vendor calls take their address in
  buckets of 4 bytes (note 1 of the header comment), so bucket \<open>b\<close> starts at byte
  \<open>4 * b\<close>.
\<close>

type_synonym rtc_mem = "nat \<Rightarrow> byte"

definition mem_bytes :: "rtc_mem \<Rightarrow> nat \<Rightarrow> nat \<Rightarrow> byte list" where
  "mem_bytes mem base n = map (\<lambda>i. mem (base + i)) [0..<n]"

text \<open>
  Modelled from the spec: \<^verbatim>\<open>system_rtc_mem_read\<close> is declared in the vendor header
  \<^verbatim>\<open>user_interface.h\<close>, which is not part of the sources. The spec gives it as
  \<^verbatim>\<open>read(unitOffset, destinationBuffer, byteLength)\<close>, synchronous, with no reported
  error: the first \<open>load_size\<close> bytes of the destination buffer are replaced by the
  bytes of the memory from bucket \<open>src_addr\<close> on, and the rest of the buffer is left
  as it was. The caller owes \<open>load_size \<le> length des\<close>.
\<close>

definition system_rtc_mem_read :: "nat \<Rightarrow> byte list \<Rightarrow> nat \<Rightarrow> rtc_mem \<Rightarrow> byte list" where
  "system_rtc_mem_read src_addr des load_size mem =
     mem_bytes mem (4 * src_addr) load_size @ drop load_size des"

text \<open>
  Modelled from the spec: \<^verbatim>\<open>system_rtc_mem_write\<close> is declared in the vendor header
  \<^verbatim>\<open>user_interface.h\<close>, which is not part of the sources. The spec gives it as
  \<^verbatim>\<open>write(unitOffset, sourceBuffer, byteLength)\<close>, synchronous, with no reported
  error: the first \<open>save_size\<close> bytes of the source buffer replace the bytes of the
  memory from bucket \<open>des_addr\<close> on, and every other byte of the memory is left as it
  was. The caller owes \<open>save_size \<le> length src\<close>.
\<close>

definition system_rtc_mem_write :: "nat \<Rightarrow> byte list \<Rightarrow> nat \<Rightarrow> rtc_mem \<Rightarrow> rtc_mem" where
  "system_rtc_mem_write des_addr src save_size mem =
     (\<lambda>a. if 4 * des_addr \<le> a \<and> a < 4 * des_addr + save_size
          then src ! (a - 4 * des_addr) else mem a)"

section \<open>The class \<^verbatim>\<open>rtcMemory\<close>\<close>

text \<open>
  The class has no data members: its methods work on the global \<^verbatim>\<open>myData\<close> and on the
  RTC memory. The state is the pair of both. A \<^verbatim>\<open>void\<close> method maps a state to a
  state; a method returning \<^verbatim>\<open>int\<close> returns the value together with the state it
  leaves.
\<close>

record machine =
  myData :: rtcStore
  rtc :: rtc_mem

text \<open>\<^verbatim>\<open>yield()\<close> hands control to the scheduler; it touches neither part of the state.\<close>

definition yield :: "machine \<Rightarrow> machine" where
  "yield s = s"

text \<open>\<^verbatim>\<open>system_rtc_mem_read(RTCMEMORYSTART, &myData, 8); yield();\<close>\<close>

definition readData :: "machine \<Rightarrow> machine" where
  "readData s =
     yield (s\<lparr>myData :=
       rtcStore_of_bytes
         (system_rtc_mem_read RTCMEMORYSTART (object_bytes (myData s)) 8 (rtc s))\<rparr>)"

text \<open>\<^verbatim>\<open>system_rtc_mem_write(RTCMEMORYSTART, &myData, sizeof(myData)); yield();\<close>\<close>

definition writeData :: "machine \<Rightarrow> machine" where
  "writeData s =
     yield (s\<lparr>rtc :=
       system_rtc_mem_write RTCMEMORYSTART (object_bytes (myData s))
         (sizeof_myData (myData s)) (rtc s)\<rparr>)"

text \<open>\<^verbatim>\<open>int count(){ return myData.count; }\<close> (the method; the field keeps the name).\<close>

definition count_rtcMemory :: "machine \<Rightarrow> c_int \<times> machine" where
  "count_rtcMemory s = (count (myData s), s)"

text \<open>\<^verbatim>\<open>myData.count++;\<close>\<close>

definition incrementCount :: "machine \<Rightarrow> machine" where
  "incrementCount s = s\<lparr>myData := (myData s)\<lparr>count := count (myData s) + 1\<rparr>\<rparr>"

text \<open>\<^verbatim>\<open>int error(){ return myData.errCode; }\<close>\<close>

definition error :: "machine \<Rightarrow> c_int \<times> machine" where
  "error s = (errCode (myData s), s)"

text \<open>\<^verbatim>\<open>myData.errCode += error;\<close>\<close>

definition setError :: "c_int \<Rightarrow> machine \<Rightarrow> machine" where
  "setError e s = s\<lparr>myData := (myData s)\<lparr>errCode := errCode (myData s) + e\<rparr>\<rparr>"

text \<open>\<^verbatim>\<open>myData.count = newValue; writeData();\<close>\<close>

definition setCount :: "c_int \<Rightarrow> machine \<Rightarrow> machine" where
  "setCount newValue s = writeData (s\<lparr>myData := (myData s)\<lparr>count := newValue\<rparr>\<rparr>)"

text \<open>
  A fresh boot keeps the RTC memory and starts with another in-process record
  (the program's globals are set up anew).
\<close>

definition boot :: "rtcStore \<Rightarrow> machine \<Rightarrow> machine" where
  "boot d s = s\<lparr>myData := d\<rparr>"

section \<open>Bytes and integers\<close>

lemma length_bytes_of_int: "length (bytes_of_int w) = 4"
  by (simp add: bytes_of_int_def)

lemma length_object_bytes: "length (object_bytes d) = 16"
  by (simp add: object_bytes_def length_bytes_of_int)

lemma length_mem_bytes: "length (mem_bytes mem base n) = n"
  by (simp add: mem_bytes_def)

lemma low_byte_step: "(ucast (ucast (w :: c_int) :: byte) :: c_int) + 256 * drop_bit 8 w = w"
proof -
  have "(ucast (ucast w :: byte) :: c_int) = take_bit 8 w"
    by (rule bit_word_eqI) (auto simp add: bit_simps)
  moreover have "256 * drop_bit 8 w = push_bit 8 (drop_bit 8 w)"
    by (simp add: push_bit_eq_mult)
  ultimately show ?thesis
    using bits_ident [of 8 w] by (simp add: add.commute)
qed

lemma upt_0_4: "[0..<4] = [0, 1, 2, 3]"
  by (simp add: upt_rec)

text \<open>Decoding the four bytes of an integer gives the integer back.\<close>

lemma int_of_bytes_of_int: "int_of_bytes (bytes_of_int w) = w"
proof -
  let ?b = "\<lambda>k. (ucast (ucast (drop_bit k w) :: byte) :: c_int)"
  have top: "drop_bit 8 (drop_bit 24 w) = 0"
    by (simp add: drop_bit_drop_bit)
  have "int_of_bytes (bytes_of_int w) =
      ucast (ucast w :: byte) + 256 * (?b 8 + 256 * (?b 16 + 256 * (?b 24 +
        256 * drop_bit 8 (drop_bit 24 w))))"
    by (simp add: int_of_bytes_def bytes_of_int_def upt_0_4 top)
  also have "\<dots> = ucast (ucast w :: byte) + 256 * (?b 8 + 256 * (?b 16 +
        256 * drop_bit 8 (drop_bit 16 w)))"
    using low_byte_step [of "drop_bit 24 w"] by (simp add: drop_bit_drop_bit)
  also have "\<dots> = ucast (ucast w :: byte) + 256 * (?b 8 + 256 * drop_bit 8 (drop_bit 8 w))"
    using low_byte_step [of "drop_bit 16 w"] by (simp add: drop_bit_drop_bit)
  also have "\<dots> = ucast (ucast w :: byte) + 256 * drop_bit 8 w"
    using low_byte_step [of "drop_bit 8 w"] by (simp add: drop_bit_drop_bit)
  also have "\<dots> = w"
    by (rule low_byte_step)
  finally show ?thesis .
qed

lemma rtcStore_of_bytes_append:
  assumes "length a = 4" "length b = 4" "length c = 4"
  shows "rtcStore_of_bytes (a @ b @ c @ d) =
    \<lparr>count = int_of_bytes a, thing = int_of_bytes b, errCode = int_of_bytes c,
     dummy = int_of_bytes (take 4 d)\<rparr>"
  using assms by (simp add: rtcStore_of_bytes_def)

lemma rtcStore_of_object_bytes: "rtcStore_of_bytes (object_bytes d) = d"
  by (simp add: object_bytes_def rtcStore_of_bytes_append length_bytes_of_int
      int_of_bytes_of_int)

lemma drop_8_object_bytes:
  "drop 8 (object_bytes d) = bytes_of_int (errCode d) @ bytes_of_int (dummy d)"
  by (simp add: object_bytes_def length_bytes_of_int)

lemma take_4_object_bytes: "take 4 (object_bytes d) = bytes_of_int (count d)"
  by (simp add: object_bytes_def length_bytes_of_int)

section \<open>Ranges of the RTC memory\<close>

lemma mem_bytes_add:
  "mem_bytes mem base (m + n) = mem_bytes mem base m @ mem_bytes mem (base + m) n"
  by (rule nth_equalityI) (auto simp add: mem_bytes_def nth_append)

lemma take_mem_bytes: "take k (mem_bytes mem base n) = mem_bytes mem base (min k n)"
  by (rule nth_equalityI) (simp_all add: mem_bytes_def)

lemma mem_bytes_write:
  assumes "n \<le> length src"
  shows "mem_bytes (system_rtc_mem_write a src n mem) (4 * a) n = take n src"
  using assms
  by (intro nth_equalityI) (auto simp add: mem_bytes_def system_rtc_mem_write_def)

section \<open>What \<^const>\<open>readData\<close> and \<^const>\<open>writeData\<close> do to the state\<close>

lemma myData_readData:
  "myData (readData s) =
     \<lparr>count = int_of_bytes (mem_bytes (rtc s) 260 4),
      thing = int_of_bytes (mem_bytes (rtc s) 264 4),
      errCode = errCode (myData s),
      dummy = dummy (myData s)\<rparr>"
proof -
  have "mem_bytes (rtc s) 260 8 = mem_bytes (rtc s) 260 4 @ mem_bytes (rtc s) 264 4"
    using mem_bytes_add [of "rtc s" 260 4 4] by simp
  then show ?thesis
    by (simp add: readData_def yield_def system_rtc_mem_read_def RTCMEMORYSTART_def
        drop_8_object_bytes rtcStore_of_bytes_append length_mem_bytes
        length_bytes_of_int int_of_bytes_of_int)
qed

lemma rtc_readData: "rtc (readData s) = rtc s"
  by (simp add: readData_def yield_def)

lemma myData_writeData: "myData (writeData s) = myData s"
  by (simp add: writeData_def yield_def)

lemma rtc_writeData:
  "rtc (writeData s) = system_rtc_mem_write 65 (object_bytes (myData s)) 16 (rtc s)"
  by (simp add: writeData_def yield_def sizeof_myData_def length_object_bytes
      RTCMEMORYSTART_def)

lemma mem_bytes_writeData: "mem_bytes (rtc (writeData s)) 260 16 = object_bytes (myData s)"
  using mem_bytes_write [of 16 "object_bytes (myData s)" 65 "rtc s"]
  by (simp add: rtc_writeData length_object_bytes)

lemma count_bytes_writeData:
  "mem_bytes (rtc (writeData s)) 260 4 = bytes_of_int (count (myData s))"
proof -
  have "mem_bytes (rtc (writeData s)) 260 4 = take 4 (mem_bytes (rtc (writeData s)) 260 16)"
    by (simp add: take_mem_bytes)
  then show ?thesis
    by (simp add: mem_bytes_writeData take_4_object_bytes)
qed

lemma thing_bytes_writeData:
  "mem_bytes (rtc (writeData s)) 264 4 = bytes_of_int (thing (myData s))"
proof -
  have "mem_bytes (rtc (writeData s)) 260 (4 + 4) =
      mem_bytes (rtc (writeData s)) 260 4 @ mem_bytes (rtc (writeData s)) (260 + 4) 4"
    by (rule mem_bytes_add)
  moreover have "mem_bytes (rtc (writeData s)) 260 (4 + 4) =
      take 8 (mem_bytes (rtc (writeData s)) 260 16)"
    by (simp add: take_mem_bytes)
  ultimately have "bytes_of_int (count (myData s)) @ mem_bytes (rtc (writeData s)) 264 4 =
      bytes_of_int (count (myData s)) @ bytes_of_int (thing (myData s))"
    by (simp add: mem_bytes_writeData count_bytes_writeData object_bytes_def
        length_bytes_of_int)
  then show ?thesis by simp
qed

lemma rtc_incrementCount: "rtc (incrementCount s) = rtc s"
  by (simp add: incrementCount_def)

lemma rtc_setError: "rtc (setError e s) = rtc s"
  by (simp add: setError_def)

lemma rtc_funpow_incrementCount: "rtc ((incrementCount ^^ N) s) = rtc s"
  by (induction N) (simp_all add: rtc_incrementCount)

lemma count_funpow_incrementCount:
  "count (myData ((incrementCount ^^ N) s)) = count (myData s) + of_nat N"
  by (induction N) (simp_all add: incrementCount_def)

section \<open>The claims\<close>

text \<open>
  Claim C1 says that \<^const>\<open>readData\<close> reads \<^verbatim>\<open>sizeof(Record)\<close> = 16 bytes, the whole
  record. The call in the source passes the literal 8, while \<^const>\<open>writeData\<close> passes
  \<^verbatim>\<open>sizeof(myData)\<close>. The theorem runs the code where the two differ: a record with
  \<open>errCode = 7\<close> and \<open>dummy = 9\<close> is written, the program boots again with its
  record zeroed and reads. The record it ends with has \<open>errCode = 0\<close> and
  \<open>dummy = 0\<close>, although the 16 bytes at the record's place in the RTC memory decode
  to the record that was written.
\<close>

theorem readData_reads_8_of_16_bytes:
  "myData (readData (boot \<lparr>count = 0, thing = 0, errCode = 0, dummy = 0\<rparr>
      (writeData \<lparr>myData = \<lparr>count = 5, thing = 6, errCode = 7, dummy = 9\<rparr>,
        rtc = (\<lambda>a. 0)\<rparr>)))
    = \<lparr>count = 5, thing = 6, errCode = 0, dummy = 0\<rparr> \<and>
   rtcStore_of_bytes (mem_bytes
      (rtc (writeData \<lparr>myData = \<lparr>count = 5, thing = 6, errCode = 7, dummy = 9\<rparr>,
        rtc = (\<lambda>a. 0)\<rparr>))
      (4 * RTCMEMORYSTART)
      (sizeof_myData \<lparr>count = 0, thing = 0, errCode = 0, dummy = 0\<rparr>))
    = \<lparr>count = 5, thing = 6, errCode = 7, dummy = 9\<rparr>"
proof -
  let ?z = "\<lparr>count = 0, thing = 0, errCode = 0, dummy = 0\<rparr> :: rtcStore"
  let ?p = "writeData \<lparr>myData = \<lparr>count = 5, thing = 6, errCode = 7, dummy = 9\<rparr>,
    rtc = (\<lambda>a. 0)\<rparr>"
  have r: "rtc (boot ?z ?p) = rtc ?p"
    by (simp add: boot_def)
  have m: "myData (boot ?z ?p) = ?z"
    by (simp add: boot_def)
  have c: "int_of_bytes (mem_bytes (rtc ?p) 260 4) = 5"
    by (simp only: count_bytes_writeData int_of_bytes_of_int) simp
  have t: "int_of_bytes (mem_bytes (rtc ?p) 264 4) = 6"
    by (simp only: thing_bytes_writeData int_of_bytes_of_int) simp
  have "myData (readData (boot ?z ?p)) = \<lparr>count = 5, thing = 6, errCode = 0, dummy = 0\<rparr>"
    by (simp add: myData_readData r m c t)
  moreover have "rtcStore_of_bytes (mem_bytes (rtc ?p) (4 * RTCMEMORYSTART) (sizeof_myData ?z))
      = \<lparr>count = 5, thing = 6, errCode = 7, dummy = 9\<rparr>"
    by (simp add: RTCMEMORYSTART_def sizeof_myData_def length_object_bytes
        mem_bytes_writeData rtcStore_of_object_bytes)
  ultimately show ?thesis by (rule conjI)
qed


text \<open>
  Claim C3 (cold boot) says that after \<^const>\<open>readData\<close> both \<^const>\<open>count_rtcMemory\<close> and
  \<^const>\<open>error\<close> return the bytes of the RTC memory at their field's place. The theorem
  runs the code on an RTC memory whose every byte is \<open>0xAA\<close>, with the in-process
  record zeroed: the count returned is the four bytes at the record's start, but the error
  returned is 0, while the four bytes at offset 8 of the record decode to
  \<open>0xAAAAAAAA\<close>.
\<close>

theorem readData_error_not_from_rtc:
  "fst (count_rtcMemory (readData
      \<lparr>myData = \<lparr>count = 0, thing = 0, errCode = 0, dummy = 0\<rparr>, rtc = (\<lambda>a. 0xAA)\<rparr>))
     = int_of_bytes (mem_bytes (\<lambda>a. 0xAA) (4 * RTCMEMORYSTART) 4) \<and>
   fst (error (readData
      \<lparr>myData = \<lparr>count = 0, thing = 0, errCode = 0, dummy = 0\<rparr>, rtc = (\<lambda>a. 0xAA)\<rparr>))
     = 0 \<and>
   int_of_bytes (mem_bytes (\<lambda>a. 0xAA) (4 * RTCMEMORYSTART + 8) 4) = 0xAAAAAAAA"
  by (simp add: count_rtcMemory_def error_def myData_readData RTCMEMORYSTART_def
      mem_bytes_def upt_0_4 int_of_bytes_def)

text \<open>
  Claim C4 (\<^const>\<open>setCount\<close> flushes): for every value \<open>v\<close> and every state,
  \<^const>\<open>setCount\<close> sets the in-process count to \<open>v\<close> and writes the whole record to the
  RTC memory at once, so that a read after a fresh boot (whatever the record starts
  with) returns the count \<open>v\<close>. The other two mutators, \<^const>\<open>incrementCount\<close> and
  \<^const>\<open>setError\<close>, leave the RTC memory as it is.
\<close>

theorem setCount_flush:
  "count (myData (setCount v s)) = v \<and>
   mem_bytes (rtc (setCount v s)) (4 * RTCMEMORYSTART) (sizeof_myData (myData (setCount v s)))
     = object_bytes ((myData s)\<lparr>count := v\<rparr>) \<and>
   fst (count_rtcMemory (readData (boot d (setCount v s)))) = v \<and>
   rtc (incrementCount s) = rtc s \<and>
   rtc (setError e s) = rtc s"
  by (simp add: setCount_def myData_writeData RTCMEMORYSTART_def sizeof_myData_def
      length_object_bytes mem_bytes_writeData count_rtcMemory_def myData_readData boot_def
      count_bytes_writeData int_of_bytes_of_int rtc_incrementCount rtc_setError)

text \<open>
  Claim C5 (\<^const>\<open>incrementCount\<close> does not persist): \<open>N\<close> calls of
  \<^const>\<open>incrementCount\<close> with no write in between add \<open>N\<close> to the in-process count and
  leave the RTC memory unchanged; a read after them returns the count the RTC memory
  held, the same as a read before them.
\<close>

theorem incrementCount_not_persisted:
  "rtc ((incrementCount ^^ N) s) = rtc s \<and>
   count (myData ((incrementCount ^^ N) s)) = count (myData s) + of_nat N \<and>
   fst (count_rtcMemory (readData ((incrementCount ^^ N) s)))
     = int_of_bytes (mem_bytes (rtc s) (4 * RTCMEMORYSTART) 4) \<and>
   fst (count_rtcMemory (readData ((incrementCount ^^ N) s)))
     = fst (count_rtcMemory (readData s))"
  by (simp add: rtc_funpow_incrementCount count_funpow_incrementCount count_rtcMemory_def
      myData_readData RTCMEMORYSTART_def)

text \<open>
  Claim C6 (\<^const>\<open>setError\<close> accumulates): for every argument and every state,
  \<^const>\<open>setError\<close> adds its argument to \<open>errCode\<close>, changes no other field and does not
  touch the RTC memory; \<^verbatim>\<open>setError(3); setError(-1)\<close> raises the error returned by 2, so
  from \<open>errCode = 0\<close> the error returned is 2.
\<close>

theorem setError_accumulates:
  "myData (setError e s) = (myData s)\<lparr>errCode := errCode (myData s) + e\<rparr> \<and>
   rtc (setError e s) = rtc s \<and>
   fst (error (setError (- 1) (setError 3 s))) = fst (error s) + 2 \<and>
   fst (error (setError (- 1) (setError 3 (s\<lparr>myData := (myData s)\<lparr>errCode := 0\<rparr>\<rparr>)))) = 2"
  by (simp add: setError_def error_def)

text \<open>
  Claim C7 (pure reads): \<^const>\<open>count_rtcMemory\<close> returns the in-process \<open>count\<close> and
  \<^const>\<open>error\<close> the in-process \<open>errCode\<close>; both leave the whole state, the in-process
  record and the RTC memory, as it was.
\<close>

theorem count_error_pure_reads:
  "fst (count_rtcMemory s) = count (myData s) \<and> snd (count_rtcMemory s) = s \<and>
   fst (error s) = errCode (myData s) \<and> snd (error s) = s"
  by (simp add: count_rtcMemory_def error_def)

text \<open>
  Claim C8 (\<^const>\<open>writeData\<close> writes the full record): the record has 16 bytes and is kept
  at bucket 65, the first bucket of user memory by note 2 of the header comment. After
  \<^const>\<open>writeData\<close>, in every state, the 16 bytes of the RTC memory from byte \<open>4 * 65\<close> on
  are the four 32-bit fields in the order \<open>count\<close>, \<open>thing\<close>, \<open>errCode\<close>, \<open>dummy\<close>,
  and they decode to the in-process record, which the call leaves as it was.
\<close>

theorem writeData_full_record:
  "RTCMEMORYSTART = 65 \<and>
   sizeof_myData (myData s) = 16 \<and>
   mem_bytes (rtc (writeData s)) (4 * RTCMEMORYSTART) 16 =
     bytes_of_int (count (myData s)) @ bytes_of_int (thing (myData s)) @
     bytes_of_int (errCode (myData s)) @ bytes_of_int (dummy (myData s)) \<and>
   rtcStore_of_bytes (mem_bytes (rtc (writeData s)) (4 * RTCMEMORYSTART) 16) = myData s \<and>
   myData (writeData s) = myData s"
  by (simp add: RTCMEMORYSTART_def sizeof_myData_def length_object_bytes mem_bytes_writeData
      rtcStore_of_object_bytes myData_writeData)
    (simp add: object_bytes_def)

text \<open>
  Claim C9 (\<^const>\<open>readData\<close> reads 8 bytes): for every state and every content of the RTC
  memory, \<open>errCode\<close> and \<open>dummy\<close> are after \<^const>\<open>readData\<close> what they were before;
  \<open>count\<close> and \<open>thing\<close> are the first and the second four bytes at the record's place
  in the RTC memory, which the call does not change.
\<close>

theorem readData_keeps_errCode_dummy:
  "errCode (myData (readData s)) = errCode (myData s) \<and>
   dummy (myData (readData s)) = dummy (myData s) \<and>
   count (myData (readData s)) = int_of_bytes (mem_bytes (rtc s) (4 * RTCMEMORYSTART) 4) \<and>
   thing (myData (readData s)) = int_of_bytes (mem_bytes (rtc s) (4 * RTCMEMORYSTART + 4) 4) \<and>
   rtc (readData s) = rtc s"
  by (simp add: myData_readData rtc_readData RTCMEMORYSTART_def)

text \<open>
  Claim C10 (no range check): with the fields as 32-bit words, \<^const>\<open>incrementCount\<close> on
  \<open>count = 2 ^ 31 - 1\<close> gives the signed value \<open>- (2 ^ 31)\<close>, and in general both
  \<^const>\<open>incrementCount\<close> and \<^const>\<open>setError\<close> add modulo \<open>2 ^ 32\<close>; there is no
  saturation.
\<close>

theorem incrementCount_setError_wrap:
  "sint (count (myData (incrementCount (s\<lparr>myData := (myData s)\<lparr>count := 0x7FFFFFFF\<rparr>\<rparr>))))
     = - (2 ^ 31) \<and>
   uint (count (myData (incrementCount s))) = (uint (count (myData s)) + 1) mod 2 ^ 32 \<and>
   uint (errCode (myData (setError e s))) = (uint (errCode (myData s)) + uint e) mod 2 ^ 32 \<and>
   sint (errCode (myData (setError 1 (s\<lparr>myData := (myData s)\<lparr>errCode := 0x7FFFFFFF\<rparr>\<rparr>))))
     = - (2 ^ 31)"
  by (simp add: incrementCount_def setError_def uint_word_ariths)

end
